theory Spec2Isabelle
  imports Main "HOL-Library.Word"
begin

unbundle bit_operations_syntax

section \<open>The report layer of the driver (driver/razercommon.c)\<close>

text \<open>
  The C file talks to the kernel through \<^verbatim>\<open>kmemdup\<close>, \<^verbatim>\<open>kzalloc\<close>, \<^verbatim>\<open>kfree\<close>,
  \<^verbatim>\<open>usb_control_msg\<close>, \<^verbatim>\<open>usleep_range\<close>, \<^verbatim>\<open>printk\<close> and the \<^verbatim>\<open>WARN\<close> macros.
  Each function of the file is a HOL function that
  \<^item> takes, next to its C parameters, the outcome of every kernel call it can make
    (whether an allocation succeeds, what a control transfer returns and writes), so
    that every behaviour of the kernel and of the device is one value of that argument;
  \<^item> returns, next to its C return value, the objects it was handed by pointer as the
    call leaves them, and the list of kernel calls it made, in order.
  \<^verbatim>\<open>unsigned char\<close> is \<open>8 word\<close>; \<^verbatim>\<open>int\<close> return values and transfer lengths are \<open>int\<close>
  (no arithmetic is done on them); \<^verbatim>\<open>uint\<close> and \<^verbatim>\<open>ulong\<close> parameters, which are only
  passed on, are \<open>nat\<close>. A \<^verbatim>\<open>void const *\<close> is the memory read through it: the byte at
  offset \<open>i\<close> is \<open>data i\<close>.
\<close>

type_synonym u8 = "8 word"

subsection \<open>Constants of the kernel headers\<close>

definition ENOMEM :: int where "ENOMEM = 12"
definition EIO :: int where "EIO = 5"
definition EINVAL :: int where "EINVAL = 22"

definition HID_REQ_GET_REPORT :: nat where "HID_REQ_GET_REPORT = 0x01"
definition HID_REQ_SET_REPORT :: nat where "HID_REQ_SET_REPORT = 0x09"

text \<open>\<^verbatim>\<open>USB_TYPE_CLASS | USB_RECIP_INTERFACE | USB_DIR_OUT\<close> and the same with \<^verbatim>\<open>USB_DIR_IN\<close>.\<close>

definition REQTYPE_CLASS_INTERFACE_OUT :: nat where "REQTYPE_CLASS_INTERFACE_OUT = 0x21"
definition REQTYPE_CLASS_INTERFACE_IN :: nat where "REQTYPE_CLASS_INTERFACE_IN = 0xA1"

definition USB_CTRL_SET_TIMEOUT :: nat where "USB_CTRL_SET_TIMEOUT = 5000"

subsection \<open>The kernel calls a function makes\<close>

datatype pipe = Snd_ctrl_pipe nat | Rcv_ctrl_pipe nat

text \<open>The arguments of one \<^verbatim>\<open>usb_control_msg\<close> call; \<open>ctl_data\<close> is the buffer as it
  is handed over (\<open>None\<close> is a \<^verbatim>\<open>NULL\<close> pointer).\<close>

record usb_ctrl =
  ctl_pipe :: pipe
  ctl_request :: nat
  ctl_requesttype :: nat
  ctl_value :: nat
  ctl_index :: nat
  ctl_data :: "u8 list option"
  ctl_size :: nat
  ctl_timeout :: nat

datatype loglevel = KERN_ERR | KERN_WARNING

datatype event =
    Kmemdup nat bool
  | Kzalloc nat bool
  | Kfree
  | Usb_control_msg usb_ctrl
  | Usleep_range nat nat
  | Printk loglevel string "int list"
  | Warn string "int list"

text \<open>What the kernel answers to a duplicate-and-send: whether \<^verbatim>\<open>kmemdup\<close> returns a
  buffer, and the value \<^verbatim>\<open>usb_control_msg\<close> returns.\<close>

record send_env =
  kmemdup_ok :: bool
  ctrl_len :: int

subsection \<open>struct razer\_report\<close>

text \<open>
  razercommon.h, which declares \<^verbatim>\<open>struct razer_report\<close>, \<^verbatim>\<open>struct razer_argb_report\<close>
  and \<^verbatim>\<open>RAZER_USB_REPORT_LEN\<close>, is not among the sources. What the C file needs of it
  is taken from the spec.
\<close>

text \<open>Modelled from the spec: the macro \<^verbatim>\<open>RAZER_USB_REPORT_LEN\<close> of razercommon.h, the
  length of one record on the wire, 90 bytes (line 108 compares with the literal 90).\<close>

definition RAZER_USB_REPORT_LEN :: nat where "RAZER_USB_REPORT_LEN = 90"

text \<open>Modelled from the spec: \<^verbatim>\<open>sizeof(struct razer_report)\<close>, the struct of razercommon.h;
  the record is as long as what the transport sends and receives.\<close>

definition RAZER_REPORT_SIZE :: nat where "RAZER_REPORT_SIZE = 90"

text \<open>Modelled from the spec: \<^verbatim>\<open>ARRAY_SIZE(response_report->arguments)\<close>, the length of
  the array declared in razercommon.h, 80 in the spec.\<close>

definition RAZER_ARGUMENTS_LEN :: nat where "RAZER_ARGUMENTS_LEN = 80"

text \<open>Modelled from the spec: \<^verbatim>\<open>struct razer_report\<close> of razercommon.h. The fields and
  their order are those of the spec's wire-format table, the names those the C file
  uses (\<open>transaction_id\<close> is \<^verbatim>\<open>transaction_id.id\<close>, \<open>command_id\<close> is \<^verbatim>\<open>command_id.id\<close>); the
  arrays are lists.\<close>

record razer_report =
  status :: u8
  transaction_id :: u8
  remaining_packets :: u8
  protocol_type :: u8
  data_size :: u8
  command_class :: u8
  command_id :: u8
  arguments :: "u8 list"
  checksum :: u8
  padding :: "u8 list"

text \<open>A C array of \<open>n\<close> bytes read from a list: cut or zero-filled to \<open>n\<close>.\<close>

definition fixed :: "nat \<Rightarrow> u8 list \<Rightarrow> u8 list" where
  "fixed n xs = take n xs @ replicate (n - length xs) 0"

text \<open>Modelled from the spec: the layout of \<^verbatim>\<open>struct razer_report\<close> (razercommon.h),
  as the raw bytes of a report (the cast to \<^verbatim>\<open>unsigned char *\<close>), at the offsets of the
  spec's table.\<close>

definition razer_report_bytes :: "razer_report \<Rightarrow> u8 list" where
  "razer_report_bytes r =
     [status r, transaction_id r, remaining_packets r, protocol_type r,
      data_size r, command_class r, command_id r]
     @ fixed RAZER_ARGUMENTS_LEN (arguments r) @ [checksum r] @ fixed 2 (padding r)"

text \<open>Modelled from the spec: the layout of \<^verbatim>\<open>struct razer_report\<close> (razercommon.h),
  as the report that \<^verbatim>\<open>sizeof(struct razer_report)\<close> raw bytes are (what a \<^verbatim>\<open>memcpy\<close>
  into the struct leaves there).\<close>

definition razer_report_of_bytes :: "u8 list \<Rightarrow> razer_report" where
  "razer_report_of_bytes bs =
     \<lparr>status = bs ! 0, transaction_id = bs ! 1, remaining_packets = bs ! 2,
      protocol_type = bs ! 3, data_size = bs ! 4, command_class = bs ! 5,
      command_id = bs ! 6, arguments = take RAZER_ARGUMENTS_LEN (drop 7 bs),
      checksum = bs ! 87, padding = take 2 (drop 88 bs)\<rparr>"

text \<open>\<^verbatim>\<open>get_empty_razer_report\<close> and \<^verbatim>\<open>get_razer_report\<close>.\<close>

definition get_empty_razer_report :: razer_report where
  "get_empty_razer_report =
     \<lparr>status = 0, transaction_id = 0, remaining_packets = 0, protocol_type = 0,
      data_size = 0, command_class = 0, command_id = 0,
      arguments = replicate RAZER_ARGUMENTS_LEN 0, checksum = 0, padding = replicate 2 0\<rparr>"

definition get_razer_report :: "u8 \<Rightarrow> u8 \<Rightarrow> u8 \<Rightarrow> razer_report" where
  "get_razer_report cmd_class cmd_id dsize =
     get_empty_razer_report
       \<lparr>status := 0x00, transaction_id := 0x00, remaining_packets := 0x00,
        protocol_type := 0x00, command_class := cmd_class, command_id := cmd_id,
        data_size := dsize\<rparr>"

subsection \<open>razer\_send\_control\_msg\<close>

text \<open>\<^verbatim>\<open>kmemdup(data, size, GFP_KERNEL)\<close>, when it succeeds: the \<open>size\<close> bytes at \<open>data\<close>.\<close>

definition kmemdup :: "(nat \<Rightarrow> u8) \<Rightarrow> nat \<Rightarrow> u8 list" where
  "kmemdup data n = map data [0..<n]"

record send_result =
  s_ret :: int
  s_events :: "event list"

definition razer_send_control_msg ::
  "send_env \<Rightarrow> (nat \<Rightarrow> u8) \<Rightarrow> nat \<Rightarrow> nat \<Rightarrow> nat \<Rightarrow> send_result" where
  "razer_send_control_msg env data report_index wait_min wait_max =
     (let request = HID_REQ_SET_REPORT;
          request_type = REQTYPE_CLASS_INTERFACE_OUT;
          val = 0x300;
          size = RAZER_USB_REPORT_LEN
      in if \<not> kmemdup_ok env
         then \<lparr>s_ret = - ENOMEM, s_events = [Kmemdup size False]\<rparr>
         else
           let buf = kmemdup data size;
               call = \<lparr>ctl_pipe = Snd_ctrl_pipe 0, ctl_request = request,
                       ctl_requesttype = request_type, ctl_value = val,
                       ctl_index = report_index, ctl_data = Some buf,
                       ctl_size = size, ctl_timeout = USB_CTRL_SET_TIMEOUT\<rparr>;
               len = ctrl_len env
           in \<lparr>s_ret = (if len < 0 then len else if len \<noteq> int size then - EIO else 0),
               s_events =
                 [Kmemdup size True, Usb_control_msg call,
                  Usleep_range wait_min wait_max, Kfree]
                 @ (if len \<noteq> int size
                    then [Printk KERN_WARNING ''razer driver: Device data transfer failed.'' []]
                    else [])\<rparr>)"

subsection \<open>razer\_get\_usb\_response\<close>

text \<open>
  What the kernel and the device answer during one exchange: whether \<^verbatim>\<open>kzalloc\<close> returns
  the scratch buffer, the answers to the write phase, the value the read transfer
  returns and the bytes it writes into the scratch buffer.
\<close>

record xchg_env =
  kzalloc_ok :: bool
  write_env :: send_env
  read_len :: int
  read_data :: "u8 list"

text \<open>A buffer after a transfer has written \<open>wr\<close> at its start (never past its end).\<close>

definition write_buf :: "u8 list \<Rightarrow> u8 list \<Rightarrow> u8 list" where
  "write_buf buf wr = take (length buf) wr @ drop (length wr) buf"

text \<open>The scratch buffer when the read transfer has returned: zeroed by \<^verbatim>\<open>kzalloc\<close>, then
  written by the device.\<close>

definition reply_buf :: "xchg_env \<Rightarrow> u8 list" where
  "reply_buf env = write_buf (replicate RAZER_REPORT_SIZE 0) (read_data env)"

text \<open>The arguments of the read transfer (lines 95 to 102).\<close>

definition read_call :: "nat \<Rightarrow> usb_ctrl" where
  "read_call response_index =
     \<lparr>ctl_pipe = Rcv_ctrl_pipe 0, ctl_request = HID_REQ_GET_REPORT,
      ctl_requesttype = REQTYPE_CLASS_INTERFACE_IN, ctl_value = 0x300,
      ctl_index = response_index,
      ctl_data = Some (replicate RAZER_REPORT_SIZE 0),
      ctl_size = RAZER_USB_REPORT_LEN, ctl_timeout = USB_CTRL_SET_TIMEOUT\<rparr>"

text \<open>
  The result of a call: the C return value, the two report objects of the caller as the
  call leaves them, the static flag of the \<^verbatim>\<open>WARN_ONCE\<close> at line 113 (it prints once per
  boot), and the kernel calls made. The request report and the response report are two
  objects of the caller, as in the spec, whose exchange takes the one and returns the
  other.
\<close>

record xchg_result =
  x_ret :: int
  x_request :: razer_report
  x_response :: razer_report
  x_warned :: bool
  x_events :: "event list"

definition razer_get_usb_response ::
  "xchg_env \<Rightarrow> bool \<Rightarrow> nat \<Rightarrow> razer_report \<Rightarrow> nat \<Rightarrow> razer_report \<Rightarrow> nat \<Rightarrow> nat
     \<Rightarrow> xchg_result" where
  "razer_get_usb_response env warned report_index request_report response_index
       response_report wait_min wait_max =
     (let ev0 = (if transaction_id request_report = 0x00
                 then [Warn ''request_report->transaction_id.id == 0x00'' []] else []);
          request_report = (if transaction_id request_report = 0x00
                            then request_report\<lparr>transaction_id := 0xFF\<rparr>
                            else request_report)
      in if \<not> kzalloc_ok env
         then \<lparr>x_ret = - ENOMEM, x_request = request_report, x_response = response_report,
               x_warned = warned, x_events = ev0 @ [Kzalloc RAZER_REPORT_SIZE False]\<rparr>
         else
           let written = razer_send_control_msg (write_env env)
                           ((!) (razer_report_bytes request_report))
                           report_index wait_min wait_max;
               retval = s_ret written;
               len = read_len env;
               buf = reply_buf env;
               response_report = razer_report_of_bytes buf;
               result = (if len \<noteq> 90 then 1 else 0);
               ev1 = ev0 @ [Kzalloc RAZER_REPORT_SIZE True] @ s_events written
                     @ [Usb_control_msg (read_call response_index), Kfree]
                     @ (if len \<noteq> 90
                        then [Printk KERN_WARNING
                                ''razer driver: Invalid USB response. USB Report length: %d'' [len]]
                        else [])
           in if unat (data_size response_report) > RAZER_ARGUMENTS_LEN
              then \<lparr>x_ret = - EINVAL, x_request = request_report,
                    x_response = response_report\<lparr>data_size := of_nat RAZER_ARGUMENTS_LEN\<rparr>,
                    x_warned = True,
                    x_events = ev1 @
                      (if warned then []
                       else [Warn ''Field data_size %d in response is bigger than arguments''
                               [uint (data_size response_report)]])\<rparr>
              else \<lparr>x_ret = result, x_request = request_report,
                    x_response = response_report, x_warned = warned, x_events = ev1\<rparr>)"

subsection \<open>razer\_calculate\_crc\<close>

text \<open>The loop of lines 165 to 167, from the values \<open>i\<close> and \<open>crc\<close> have when its test is
  reached; \<open>rep\<close> is \<^verbatim>\<open>_report\<close>, the bytes of the report.\<close>

function crc_loop :: "u8 list \<Rightarrow> nat \<Rightarrow> u8 \<Rightarrow> u8" where
  "crc_loop rep i crc = (if i < 88 then crc_loop rep (i + 1) (crc XOR rep ! i) else crc)"
  by pat_completeness auto
termination
  by (relation "measure (\<lambda>(rep, i, crc). 88 - i)") auto

declare crc_loop.simps [simp del]

text \<open>The call returns the checksum; its second component is the report object as the
  call leaves it (no statement of the function stores through \<^verbatim>\<open>report\<close> or
  \<^verbatim>\<open>_report\<close>).\<close>

definition razer_calculate_crc :: "razer_report \<Rightarrow> u8 \<times> razer_report" where
  "razer_calculate_crc report = (crc_loop (razer_report_bytes report) 2 0, report)"

subsection \<open>razer\_send\_argb\_msg\<close>

text \<open>
  Modelled from the spec: \<^verbatim>\<open>struct razer_argb_report\<close> of razercommon.h. Its fields are
  one byte each, in the order of the spec's lighting-frame format, followed by the
  array \<^verbatim>\<open>color_data\<close>. The spec gives the array no length: it is the length of
  \<open>color_data\<close> in the record the function starts from.
\<close>

record razer_argb_report =
  report_id :: u8
  channel_1 :: u8
  channel_2 :: u8
  pad :: u8
  last_idx :: u8
  color_data :: "u8 list"

text \<open>Modelled from the spec: the layout of \<^verbatim>\<open>struct razer_argb_report\<close>
  (razercommon.h), as the raw bytes of a frame.\<close>

definition razer_argb_report_bytes :: "razer_argb_report \<Rightarrow> u8 list" where
  "razer_argb_report_bytes r =
     [report_id r, channel_1 r, channel_2 r, pad r, last_idx r] @ color_data r"

text \<open>\<^verbatim>\<open>sizeof(report)\<close> and \<^verbatim>\<open>ARRAY_SIZE(report.color_data)\<close>.\<close>

definition sizeof_argb :: "razer_argb_report \<Rightarrow> nat" where
  "sizeof_argb r = length (razer_argb_report_bytes r)"

definition color_data_len :: "razer_argb_report \<Rightarrow> nat" where
  "color_data_len r = length (color_data r)"

text \<open>\<^verbatim>\<open>memcpy(dst, src, n)\<close> into an array at least \<open>n\<close> long.\<close>

definition memcpy :: "u8 list \<Rightarrow> (nat \<Rightarrow> u8) \<Rightarrow> nat \<Rightarrow> u8 list" where
  "memcpy dst src n = map src [0..<n] @ drop n dst"

text \<open>
  The local \<^verbatim>\<open>report\<close> is declared without an initialiser: the function starts from
  whatever the stack holds, the argument \<open>report\<close>. The result holds the C return value,
  the local \<^verbatim>\<open>report\<close> as the call leaves it, and the kernel calls made. The result of
  \<^verbatim>\<open>kmemdup\<close> is not tested: a \<^verbatim>\<open>NULL\<close> is handed on to the transfer. The C parameter
  \<^verbatim>\<open>size\<close> is \<open>size'\<close>.
\<close>

record argb_result =
  a_ret :: int
  a_report :: razer_argb_report
  a_events :: "event list"

definition razer_send_argb_msg ::
  "send_env \<Rightarrow> razer_argb_report \<Rightarrow> u8 \<Rightarrow> u8 \<Rightarrow> (nat \<Rightarrow> u8) \<Rightarrow> argb_result" where
  "razer_send_argb_msg env report channel size' data =
     (let request = HID_REQ_SET_REPORT;
          request_type = REQTYPE_CLASS_INTERFACE_OUT;
          val = 0x300;
          report = (if channel < 5 then report\<lparr>report_id := 0x04\<rparr>
                    else report\<lparr>report_id := 0x84\<rparr>);
          report = report\<lparr>channel_1 := channel\<rparr>;
          report = report\<lparr>channel_2 := channel\<rparr>;
          report = report\<lparr>pad := 0\<rparr>;
          report = report\<lparr>last_idx := word_of_int (uint size' - 1)\<rparr>
      in if unat size' * 3 > color_data_len report
         then \<lparr>a_ret = - EINVAL, a_report = report,
               a_events = [Printk KERN_ERR ''razer driver: size too big'' []]\<rparr>
         else
           let report = report\<lparr>color_data := memcpy (color_data report) data (unat size' * 3)\<rparr>;
               buf = (if kmemdup_ok env then Some (razer_argb_report_bytes report) else None);
               call = \<lparr>ctl_pipe = Snd_ctrl_pipe 0, ctl_request = request,
                       ctl_requesttype = request_type, ctl_value = val,
                       ctl_index = 0x01, ctl_data = buf,
                       ctl_size = sizeof_argb report, ctl_timeout = USB_CTRL_SET_TIMEOUT\<rparr>;
               len = ctrl_len env
           in \<lparr>a_ret = (if len < 0 then len
                        else if len \<noteq> uint size' then - EIO else 0),
               a_report = report,
               a_events =
                 [Kmemdup (sizeof_argb report) (kmemdup_ok env), Usb_control_msg call]
                 @ (if len \<noteq> int (sizeof_argb report)
                    then [Printk KERN_WARNING
                            ''razer driver: Device data transfer failed. len = %d'' [len]]
                    else [])\<rparr>)"

subsection \<open>Reading the list of kernel calls\<close>

text \<open>The control transfers among the kernel calls of a run, in order.\<close>

fun transfers :: "event list \<Rightarrow> usb_ctrl list" where
  "transfers [] = []"
| "transfers (Usb_control_msg c # es) = c # transfers es"
| "transfers (e # es) = transfers es"

text \<open>The buffers of the host-to-device transfers among them.\<close>

definition sent :: "event list \<Rightarrow> u8 list option list" where
  "sent es = map ctl_data (filter (\<lambda>c. ctl_pipe c = Snd_ctrl_pipe 0) (transfers es))"

subsection \<open>Example inputs\<close>

text \<open>A reply of the device with \<^verbatim>\<open>data_size\<close> 2 and first argument \<open>0x42\<close>, one whose
  \<^verbatim>\<open>data_size\<close> is 255, a kernel on which every call succeeds, and one whose write phase
  fails with \<^verbatim>\<open>-EPROTO\<close>.\<close>

definition echo_reply :: "u8 list" where
  "echo_reply = [0x02, 0x1F, 0x00, 0x00, 0x02, 0x0F, 0x82, 0x42]"

definition oversized_reply :: "u8 list" where
  "oversized_reply = [0x02, 0x1F, 0x00, 0x00, 0xFF, 0x0F, 0x82, 0x42]"

definition good_env :: xchg_env where
  "good_env = \<lparr>kzalloc_ok = True, write_env = \<lparr>kmemdup_ok = True, ctrl_len = 90\<rparr>,
               read_len = 90, read_data = echo_reply\<rparr>"

definition write_fails_env :: xchg_env where
  "write_fails_env = good_env\<lparr>write_env := \<lparr>kmemdup_ok = True, ctrl_len = - 71\<rparr>\<rparr>"

text \<open>The request of the spec's end-to-end example (its transaction id is 0), and a frame
  object with whatever the stack held, its colour array \<open>n\<close> bytes long.\<close>

definition example_request :: razer_report where
  "example_request =
     (get_razer_report 0x0F 0x02 0x02)\<lparr>arguments := [0x01, 0x01] @ replicate 78 0\<rparr>"

definition stack_frame :: "nat \<Rightarrow> razer_argb_report" where
  "stack_frame n =
     \<lparr>report_id = 0x5A, channel_1 = 0x5A, channel_2 = 0x5A, pad = 0x5A, last_idx = 0x5A,
      color_data = replicate n 0x5A\<rparr>"

definition example_colors :: "nat \<Rightarrow> u8" where
  "example_colors i = of_nat (i + 1)"

section \<open>Facts about the model\<close>

lemma length_fixed: "length (fixed n xs) = n"
  by (simp add: fixed_def)

lemma fixed_id: "length xs = n \<Longrightarrow> fixed n xs = xs"
  by (simp add: fixed_def)

lemma length_razer_report_bytes: "length (razer_report_bytes r) = 90"
  by (simp add: razer_report_bytes_def length_fixed RAZER_ARGUMENTS_LEN_def)

lemma length_reply_buf: "length (reply_buf env) = 90"
  by (simp add: reply_buf_def write_buf_def RAZER_REPORT_SIZE_def)

lemma tid_byte: "razer_report_bytes r ! Suc 0 = transaction_id r"
  by (simp add: razer_report_bytes_def)

text \<open>Duplicating \<^verbatim>\<open>RAZER_USB_REPORT_LEN\<close> bytes from a report object copies all of it.\<close>

lemma kmemdup_report:
  "kmemdup ((!) (razer_report_bytes r)) RAZER_USB_REPORT_LEN = razer_report_bytes r"
  unfolding kmemdup_def RAZER_USB_REPORT_LEN_def
  using map_nth [of "razer_report_bytes r"] by (simp add: length_razer_report_bytes)

text \<open>Reading a report out of 90 bytes and taking its bytes gives the 90 bytes back.\<close>

lemma take7:
  "length bs = 90 \<Longrightarrow>
     [bs ! 0, bs ! 1, bs ! 2, bs ! 3, bs ! 4, bs ! 5, bs ! 6] = take 7 bs"
  by (simp add: take_Suc_conv_app_nth numeral_eq_Suc)

lemma razer_report_bytes_of_bytes:
  assumes "length bs = 90"
  shows "razer_report_bytes (razer_report_of_bytes bs) = bs"
proof -
  have a: "fixed 80 (take 80 (drop 7 bs)) = take 80 (drop 7 bs)"
    using assms by (simp add: fixed_id)
  have b: "fixed 2 (take 2 (drop 88 bs)) = drop 88 bs"
    using assms by (simp add: fixed_id)
  have c: "[bs ! 87] = take 1 (drop 87 bs)"
    using assms by (simp add: take_Suc_conv_app_nth)
  have d1: "take 80 (drop 7 bs) @ drop 87 bs = drop 7 bs"
    using append_take_drop_id [of 80 "drop 7 bs"] by simp
  have d2: "take 1 (drop 87 bs) @ drop 88 bs = drop 87 bs"
    using append_take_drop_id [of 1 "drop 87 bs"] by simp
  have "take 7 bs @ take 80 (drop 7 bs) @ take 1 (drop 87 bs) @ drop 88 bs = bs"
    by (simp only: d2 d1 append_take_drop_id)
  then show ?thesis
    unfolding razer_report_bytes_def razer_report_of_bytes_def RAZER_ARGUMENTS_LEN_def
    using take7 [OF assms] a b c by simp
qed

subsection \<open>The transfers of a call\<close>

lemma transfers_append: "transfers (xs @ ys) = transfers xs @ transfers ys"
  by (induction xs rule: transfers.induct) simp_all

lemma transfers_send:
  "transfers (s_events (razer_send_control_msg we data report_index wait_min wait_max)) =
     (if kmemdup_ok we
      then [\<lparr>ctl_pipe = Snd_ctrl_pipe 0, ctl_request = HID_REQ_SET_REPORT,
             ctl_requesttype = REQTYPE_CLASS_INTERFACE_OUT, ctl_value = 0x300,
             ctl_index = report_index, ctl_data = Some (kmemdup data RAZER_USB_REPORT_LEN),
             ctl_size = RAZER_USB_REPORT_LEN, ctl_timeout = USB_CTRL_SET_TIMEOUT\<rparr>]
      else [])"
  by (simp add: razer_send_control_msg_def Let_def)

lemma transfers_exchange:
  "transfers (x_events (razer_get_usb_response env warned report_index request_report
           response_index response_report wait_min wait_max)) =
     (if kzalloc_ok env
      then transfers (s_events (razer_send_control_msg (write_env env)
             ((!) (razer_report_bytes
                (if transaction_id request_report = 0x00
                 then request_report\<lparr>transaction_id := 0xFF\<rparr> else request_report)))
             report_index wait_min wait_max))
           @ [read_call response_index]
      else [])"
  by (simp add: razer_get_usb_response_def Let_def transfers_append)

lemma x_request_exchange:
  "x_request (razer_get_usb_response env warned report_index request_report
      response_index response_report wait_min wait_max) =
     (if transaction_id request_report = 0x00
      then request_report\<lparr>transaction_id := 0xFF\<rparr> else request_report)"
  by (simp add: razer_get_usb_response_def Let_def)

text \<open>The return value of an exchange that got its scratch buffer.\<close>

lemma x_ret_exchange:
  "kzalloc_ok env \<Longrightarrow>
   x_ret (razer_get_usb_response env warned report_index request_report
      response_index response_report wait_min wait_max) =
     (if unat (data_size (razer_report_of_bytes (reply_buf env))) > RAZER_ARGUMENTS_LEN
      then - EINVAL else if read_len env \<noteq> 90 then 1 else 0)"
  by (simp add: razer_get_usb_response_def Let_def)

subsection \<open>The checksum loop\<close>

lemma crc_loop_foldl:
  "crc_loop rep i crc = foldl (XOR) crc (map ((!) rep) [i..<88])"
proof (induction rep i crc rule: crc_loop.induct)
  case (1 rep i crc)
  show ?case
  proof (cases "i < 88")
    case True
    then have "[i..<88] = i # [i + 1..<88]"
      by (simp add: upt_conv_Cons)
    with True 1 show ?thesis
      by (subst crc_loop.simps) simp
  next
    case False
    then show ?thesis
      by (subst crc_loop.simps) simp
  qed
qed

lemma map_nth_upt_take_drop:
  "n \<le> length xs \<Longrightarrow> map ((!) xs) [m..<n] = take (n - m) (drop m xs)"
  by (rule nth_equalityI) auto

lemma crc_loop_bytes:
  "crc_loop (razer_report_bytes r) 2 0 =
     foldl (XOR) 0 (take 86 (drop 2 (razer_report_bytes r)))"
proof -
  have "88 \<le> length (razer_report_bytes r)"
    by (simp add: length_razer_report_bytes)
  from map_nth_upt_take_drop [OF this, of 2]
  have "map ((!) (razer_report_bytes r)) [2..<88] =
          take (88 - 2) (drop 2 (razer_report_bytes r))" .
  moreover have "(88::nat) - 2 = 86"
    by simp
  ultimately show ?thesis
    by (simp only: crc_loop_foldl)
qed

subsection \<open>The lighting frame\<close>

lemma argb_passes:
  assumes "\<not> unat size' * 3 > color_data_len report"
  shows "razer_send_argb_msg env report channel size' data =
     (let frame = report\<lparr>report_id := (if channel < 5 then 0x04 else 0x84),
                    channel_1 := channel, channel_2 := channel, pad := 0,
                    last_idx := size' - 1,
                    color_data := memcpy (color_data report) data (unat size' * 3)\<rparr>;
          len = ctrl_len env
      in \<lparr>a_ret = (if len < 0 then len else if len \<noteq> uint size' then - EIO else 0),
          a_report = frame,
          a_events =
            [Kmemdup (sizeof_argb frame) (kmemdup_ok env),
             Usb_control_msg
               \<lparr>ctl_pipe = Snd_ctrl_pipe 0, ctl_request = HID_REQ_SET_REPORT,
                ctl_requesttype = REQTYPE_CLASS_INTERFACE_OUT, ctl_value = 0x300,
                ctl_index = 0x01,
                ctl_data = (if kmemdup_ok env then Some (razer_argb_report_bytes frame)
                            else None),
                ctl_size = sizeof_argb frame, ctl_timeout = USB_CTRL_SET_TIMEOUT\<rparr>]
            @ (if len \<noteq> int (sizeof_argb frame)
               then [Printk KERN_WARNING
                       ''razer driver: Device data transfer failed. len = %d'' [len]]
               else [])\<rparr>)"
  using assms
  by (simp add: razer_send_argb_msg_def Let_def color_data_len_def)

lemma argb_rejects:
  assumes "unat size' * 3 > color_data_len report"
  shows "razer_send_argb_msg env report channel size' data =
     \<lparr>a_ret = - EINVAL,
      a_report = report\<lparr>report_id := (if channel < 5 then 0x04 else 0x84),
                    channel_1 := channel, channel_2 := channel, pad := 0,
                    last_idx := size' - 1\<rparr>,
      a_events = [Printk KERN_ERR ''razer driver: size too big'' []]\<rparr>"
  using assms
  by (simp add: razer_send_argb_msg_def Let_def color_data_len_def)

lemma sizeof_argb_frame:
  "n \<le> length (color_data report) \<Longrightarrow>
   sizeof_argb (report\<lparr>report_id := a, channel_1 := b, channel_2 := c, pad := d,
                  last_idx := e, color_data := memcpy (color_data report) data n\<rparr>)
     = 5 + length (color_data report)"
  by (simp add: sizeof_argb_def razer_argb_report_bytes_def memcpy_def)

text \<open>
  A transfer that moves the whole frame is answered with \<^verbatim>\<open>-EIO\<close>: the last line of
  \<^verbatim>\<open>razer_send_argb_msg\<close> compares the transferred length with the LED count
  \<^verbatim>\<open>size\<close>, which is smaller than the frame whenever the payload fits.
\<close>

lemma argb_full_transfer_is_EIO:
  assumes "\<not> unat size' * 3 > color_data_len report"
    and "ctrl_len env = int (5 + color_data_len report)"
  shows "a_ret (razer_send_argb_msg env report channel size' data) = - EIO"
proof -
  have "unat size' < 5 + color_data_len report"
    using assms(1) by arith
  then have "int (unat size') < int (5 + color_data_len report)"
    by (simp only: of_nat_less_iff)
  then have "uint size' < int (5 + color_data_len report)"
    by (simp only: uint_nat)
  then have "ctrl_len env \<noteq> uint size'"
    using assms(2) by simp
  moreover have "\<not> ctrl_len env < 0" using assms(2) by simp
  ultimately show ?thesis
    by (simp add: argb_passes [OF assms(1)] Let_def)
qed

text \<open>And a transfer that moves as many bytes as there are LEDs is answered with 0.\<close>

lemma argb_count_bytes_is_success:
  assumes "\<not> unat size' * 3 > color_data_len report"
    and "ctrl_len env = uint size'"
  shows "a_ret (razer_send_argb_msg env report channel size' data) = 0"
  using assms(2) by (simp add: argb_passes [OF assms(1)] Let_def)

section \<open>The request/response exchange\<close>

text \<open>
  Claim C1. In every call of \<^verbatim>\<open>razer_get_usb_response\<close> that got its scratch buffer and
  in which the reply of the device declares a \<^verbatim>\<open>data_size\<close> above the capacity of the
  \<^verbatim>\<open>arguments\<close> array, the call returns \<^verbatim>\<open>-EINVAL\<close> and the response report handed back
  has its \<^verbatim>\<open>data_size\<close> set to exactly that capacity.
\<close>

theorem exchange_oversized_data_size:
  assumes "kzalloc_ok env"
    and "RAZER_ARGUMENTS_LEN < unat (data_size (razer_report_of_bytes (reply_buf env)))"
  shows "x_ret (razer_get_usb_response env warned report_index request_report
                  response_index response_report wait_min wait_max) = - EINVAL
       \<and> data_size (x_response (razer_get_usb_response env warned report_index
                  request_report response_index response_report wait_min wait_max))
           = of_nat RAZER_ARGUMENTS_LEN
       \<and> unat (data_size (x_response (razer_get_usb_response env warned report_index
                  request_report response_index response_report wait_min wait_max)))
           = RAZER_ARGUMENTS_LEN"
  using assms
  by (simp add: razer_get_usb_response_def Let_def RAZER_ARGUMENTS_LEN_def)

theorem exchange_oversized_data_size_witness:
  "kzalloc_ok (good_env\<lparr>read_data := oversized_reply\<rparr>)
   \<and> RAZER_ARGUMENTS_LEN
       < unat (data_size (razer_report_of_bytes
                 (reply_buf (good_env\<lparr>read_data := oversized_reply\<rparr>))))
   \<and> x_ret (razer_get_usb_response (good_env\<lparr>read_data := oversized_reply\<rparr>) False 2
             example_request 2 get_empty_razer_report 600 800) = - 22
   \<and> unat (data_size (x_response (razer_get_usb_response
             (good_env\<lparr>read_data := oversized_reply\<rparr>) False 2
             example_request 2 get_empty_razer_report 600 800))) = 80"
proof -
  have h1: "kzalloc_ok (good_env\<lparr>read_data := oversized_reply\<rparr>)"
    by (simp add: good_env_def)
  have h2: "RAZER_ARGUMENTS_LEN
       < unat (data_size (razer_report_of_bytes
                 (reply_buf (good_env\<lparr>read_data := oversized_reply\<rparr>))))"
    by (simp add: good_env_def oversized_reply_def reply_buf_def write_buf_def
          razer_report_of_bytes_def RAZER_ARGUMENTS_LEN_def RAZER_REPORT_SIZE_def)
  from exchange_oversized_data_size [OF h1 h2, where warned = False and report_index = 2
      and request_report = example_request and response_index = 2
      and response_report = get_empty_razer_report and wait_min = 600 and wait_max = 800]
  show ?thesis
    using h1 h2 by (simp add: EINVAL_def RAZER_ARGUMENTS_LEN_def)
qed

text \<open>
  Claim C3. In every call of \<^verbatim>\<open>razer_get_usb_response\<close> that got its scratch buffer, the
  device-to-host read transfer is issued whatever the write phase did: the control
  transfers of the call are those of the write phase (one, or none when its \<^verbatim>\<open>kmemdup\<close>
  failed) followed by the read transfer. No answer to the write phase makes the call
  return before the read.
\<close>

theorem exchange_read_always_attempted:
  assumes "kzalloc_ok env"
  shows "transfers (x_events (razer_get_usb_response env warned report_index request_report
                     response_index response_report wait_min wait_max))
         = transfers (s_events (razer_send_control_msg (write_env env)
              ((!) (razer_report_bytes (x_request (razer_get_usb_response env warned
                   report_index request_report response_index response_report
                   wait_min wait_max))))
              report_index wait_min wait_max))
           @ [read_call response_index]
       \<and> ctl_pipe (read_call response_index) = Rcv_ctrl_pipe 0
       \<and> ctl_index (read_call response_index) = response_index"
  using assms
  by (simp add: transfers_exchange x_request_exchange read_call_def)

theorem exchange_read_always_attempted_witness:
  "kzalloc_ok write_fails_env
   \<and> s_ret (razer_send_control_msg (write_env write_fails_env)
        ((!) (razer_report_bytes example_request)) 2 600 800) = - 71
   \<and> map ctl_pipe (transfers (x_events (razer_get_usb_response write_fails_env False 2
        example_request 2 get_empty_razer_report 600 800)))
       = [Snd_ctrl_pipe 0, Rcv_ctrl_pipe 0]
   \<and> last (transfers (x_events (razer_get_usb_response write_fails_env False 2
        example_request 2 get_empty_razer_report 600 800))) = read_call 2"
proof -
  have h: "kzalloc_ok write_fails_env"
    by (simp add: write_fails_env_def good_env_def)
  have w: "kmemdup_ok (write_env write_fails_env)"
    by (simp add: write_fails_env_def good_env_def)
  from exchange_read_always_attempted [OF h, where warned = False and report_index = 2
      and request_report = example_request and response_index = 2
      and response_report = get_empty_razer_report and wait_min = 600 and wait_max = 800]
  show ?thesis
    using h w
    by (simp add: transfers_send)
       (simp add: razer_send_control_msg_def write_fails_env_def good_env_def Let_def)
qed

text \<open>
  Claim C4. A request report with transaction id \<open>0x00\<close> has it coerced to \<open>0xFF\<close>
  before anything is transmitted: the caller's request object reads \<open>0xFF\<close> when the
  call is over, and the buffer of the write transfer (there is one when both
  allocations succeed) holds the bytes of that coerced object, \<open>0xFF\<close> at the offset of
  the transaction id. A request report with another transaction id is left as it is and
  transmitted as it is.
\<close>

theorem exchange_transaction_id_coerced:
  fixes env warned report_index request_report response_index response_report
    wait_min wait_max
  defines "r \<equiv> razer_get_usb_response env warned report_index request_report
                  response_index response_report wait_min wait_max"
  shows "(transaction_id request_report = 0x00 \<longrightarrow>
            x_request r = request_report\<lparr>transaction_id := 0xFF\<rparr>
          \<and> transaction_id (x_request r) = 0xFF)
       \<and> (transaction_id request_report \<noteq> 0x00 \<longrightarrow> x_request r = request_report)
       \<and> sent (x_events r) =
            (if kzalloc_ok env \<and> kmemdup_ok (write_env env)
             then [Some (razer_report_bytes (x_request r))] else [])
       \<and> razer_report_bytes (x_request r) ! 1 =
            (if transaction_id request_report = 0x00 then 0xFF
             else transaction_id request_report)"
  unfolding r_def
  by (simp add: x_request_exchange sent_def transfers_exchange transfers_send
        kmemdup_report read_call_def tid_byte)

theorem exchange_transaction_id_coerced_witness:
  "transaction_id example_request = 0x00
   \<and> transaction_id (x_request (razer_get_usb_response good_env False 2
        example_request 2 get_empty_razer_report 600 800)) = 0xFF
   \<and> sent (x_events (razer_get_usb_response good_env False 2
        example_request 2 get_empty_razer_report 600 800))
       = [Some (razer_report_bytes (example_request\<lparr>transaction_id := 0xFF\<rparr>))]
   \<and> transaction_id (example_request\<lparr>transaction_id := 0x1F\<rparr>) \<noteq> 0x00
   \<and> x_request (razer_get_usb_response good_env False 2
        (example_request\<lparr>transaction_id := 0x1F\<rparr>) 2 get_empty_razer_report 600 800)
       = example_request\<lparr>transaction_id := 0x1F\<rparr>
   \<and> sent (x_events (razer_get_usb_response good_env False 2
        (example_request\<lparr>transaction_id := 0x1F\<rparr>) 2 get_empty_razer_report 600 800))
       = [Some (razer_report_bytes (example_request\<lparr>transaction_id := 0x1F\<rparr>))]"
proof -
  have z: "transaction_id example_request = 0x00"
    by (simp add: example_request_def get_razer_report_def)
  have e: "kzalloc_ok good_env \<and> kmemdup_ok (write_env good_env)"
    by (simp add: good_env_def)
  show ?thesis
    using z e
      exchange_transaction_id_coerced [of example_request good_env False 2 2
        get_empty_razer_report 600 800]
      exchange_transaction_id_coerced [of "example_request\<lparr>transaction_id := 0x1F\<rparr>"
        good_env False 2 2 get_empty_razer_report 600 800]
    by simp
qed

text \<open>
  Claim C7. In every call of \<^verbatim>\<open>razer_get_usb_response\<close> that got its scratch buffer, when
  the read transfer returns a value other than 90 and the \<^verbatim>\<open>data_size\<close> of the reply is
  within the capacity of \<^verbatim>\<open>arguments\<close>, the call returns 1, the warning about the report
  length is printed with that value, and the caller's response report holds the
  scratch buffer, byte for byte.
\<close>

theorem exchange_short_read:
  fixes env warned report_index request_report response_index response_report
    wait_min wait_max
  defines "r \<equiv> razer_get_usb_response env warned report_index request_report
                  response_index response_report wait_min wait_max"
  assumes "kzalloc_ok env"
    and "read_len env \<noteq> 90"
    and "unat (data_size (razer_report_of_bytes (reply_buf env))) \<le> RAZER_ARGUMENTS_LEN"
  shows "x_ret r = 1
       \<and> Printk KERN_WARNING
            ''razer driver: Invalid USB response. USB Report length: %d'' [read_len env]
          \<in> set (x_events r)
       \<and> x_response r = razer_report_of_bytes (reply_buf env)
       \<and> razer_report_bytes (x_response r) = reply_buf env"
proof -
  have "x_response r = razer_report_of_bytes (reply_buf env)"
    using assms(2,4) by (simp add: r_def razer_get_usb_response_def Let_def)
  moreover have "razer_report_bytes (razer_report_of_bytes (reply_buf env)) = reply_buf env"
    by (rule razer_report_bytes_of_bytes) (rule length_reply_buf)
  moreover have "x_ret r = 1"
    using assms(2-4) by (simp add: r_def x_ret_exchange)
  moreover have "Printk KERN_WARNING
            ''razer driver: Invalid USB response. USB Report length: %d'' [read_len env]
          \<in> set (x_events r)"
    using assms(2-4) by (simp add: r_def razer_get_usb_response_def Let_def)
  ultimately show ?thesis
    by simp
qed

theorem exchange_short_read_witness:
  "kzalloc_ok (good_env\<lparr>read_len := 8\<rparr>)
   \<and> read_len (good_env\<lparr>read_len := 8\<rparr>) \<noteq> 90
   \<and> unat (data_size (razer_report_of_bytes (reply_buf (good_env\<lparr>read_len := 8\<rparr>))))
       \<le> RAZER_ARGUMENTS_LEN
   \<and> x_ret (razer_get_usb_response (good_env\<lparr>read_len := 8\<rparr>) False 2
        example_request 2 get_empty_razer_report 600 800) = 1
   \<and> razer_report_bytes (x_response (razer_get_usb_response (good_env\<lparr>read_len := 8\<rparr>)
        False 2 example_request 2 get_empty_razer_report 600 800))
       = reply_buf (good_env\<lparr>read_len := 8\<rparr>)
   \<and> reply_buf (good_env\<lparr>read_len := 8\<rparr>) = echo_reply @ replicate 82 0"
proof -
  have h1: "kzalloc_ok (good_env\<lparr>read_len := 8\<rparr>)"
    by (simp add: good_env_def)
  have h2: "read_len (good_env\<lparr>read_len := 8\<rparr>) \<noteq> 90"
    by simp
  have b: "reply_buf (good_env\<lparr>read_len := 8\<rparr>) = echo_reply @ replicate 82 0"
    by (simp add: good_env_def echo_reply_def reply_buf_def write_buf_def
          RAZER_REPORT_SIZE_def)
  have h3: "unat (data_size (razer_report_of_bytes (reply_buf (good_env\<lparr>read_len := 8\<rparr>))))
       \<le> RAZER_ARGUMENTS_LEN"
    by (simp add: b echo_reply_def razer_report_of_bytes_def RAZER_ARGUMENTS_LEN_def)
  from exchange_short_read [OF h1 h2 h3, of False 2 example_request 2
      get_empty_razer_report 600 800]
  show ?thesis
    using h1 h2 h3 b by blast
qed

text \<open>
  Claim C9. Once the scratch buffer is allocated, the return value of
  \<^verbatim>\<open>razer_get_usb_response\<close> is a function of the value the read transfer returned and of
  the \<^verbatim>\<open>data_size\<close> of the reply alone: replacing the answers to the write phase by any
  others leaves it unchanged, and a call whose write phase returned an error still
  returns 0 when the read transfer returns 90 and the \<^verbatim>\<open>data_size\<close> of the reply is within
  the capacity of \<^verbatim>\<open>arguments\<close>.
\<close>

theorem exchange_result_ignores_write_phase:
  assumes "kzalloc_ok env"
  shows "x_ret (razer_get_usb_response env warned report_index request_report
                  response_index response_report wait_min wait_max)
         = (if RAZER_ARGUMENTS_LEN < unat (data_size (razer_report_of_bytes (reply_buf env)))
            then - EINVAL else if read_len env \<noteq> 90 then 1 else 0)
       \<and> x_ret (razer_get_usb_response (env\<lparr>write_env := we\<rparr>) warned report_index
                  request_report response_index response_report wait_min wait_max)
         = x_ret (razer_get_usb_response env warned report_index request_report
                  response_index response_report wait_min wait_max)
       \<and> (s_ret (razer_send_control_msg (write_env env)
                  ((!) (razer_report_bytes (x_request (razer_get_usb_response env warned
                      report_index request_report response_index response_report
                      wait_min wait_max))))
                  report_index wait_min wait_max) < 0
            \<and> read_len env = 90
            \<and> unat (data_size (razer_report_of_bytes (reply_buf env))) \<le> RAZER_ARGUMENTS_LEN
          \<longrightarrow> x_ret (razer_get_usb_response env warned report_index request_report
                  response_index response_report wait_min wait_max) = 0)"
proof -
  have "kzalloc_ok (env\<lparr>write_env := we\<rparr>)"
    using assms by simp
  moreover have "reply_buf (env\<lparr>write_env := we\<rparr>) = reply_buf env"
    by (simp add: reply_buf_def)
  ultimately show ?thesis
    using assms by (simp add: x_ret_exchange)
qed

theorem exchange_result_ignores_write_phase_witness:
  "kzalloc_ok write_fails_env
   \<and> s_ret (razer_send_control_msg (write_env write_fails_env)
        ((!) (razer_report_bytes (x_request (razer_get_usb_response write_fails_env False 2
            example_request 2 get_empty_razer_report 600 800)))) 2 600 800) < 0
   \<and> read_len write_fails_env = 90
   \<and> unat (data_size (razer_report_of_bytes (reply_buf write_fails_env)))
       \<le> RAZER_ARGUMENTS_LEN
   \<and> x_ret (razer_get_usb_response write_fails_env False 2
        example_request 2 get_empty_razer_report 600 800) = 0"
proof -
  have h: "kzalloc_ok write_fails_env"
    by (simp add: write_fails_env_def good_env_def)
  have w: "s_ret (razer_send_control_msg (write_env write_fails_env)
        ((!) (razer_report_bytes (x_request (razer_get_usb_response write_fails_env False 2
            example_request 2 get_empty_razer_report 600 800)))) 2 600 800) < 0"
    by (simp add: razer_send_control_msg_def write_fails_env_def good_env_def Let_def)
  have l: "read_len write_fails_env = 90"
    by (simp add: write_fails_env_def good_env_def)
  have d: "unat (data_size (razer_report_of_bytes (reply_buf write_fails_env)))
       \<le> RAZER_ARGUMENTS_LEN"
    by (simp add: write_fails_env_def good_env_def echo_reply_def reply_buf_def
          write_buf_def razer_report_of_bytes_def RAZER_ARGUMENTS_LEN_def
          RAZER_REPORT_SIZE_def)
  from exchange_result_ignores_write_phase [OF h, of False 2 example_request 2
      get_empty_razer_report 600 800]
  show ?thesis
    using h w l d by simp
qed

section \<open>The checksum\<close>

text \<open>
  Claim C6. For every report, \<^verbatim>\<open>razer_calculate_crc\<close> returns the XOR of the bytes at
  offsets 2 to 87 of its raw bytes, and leaves the report as it was. So two reports
  whose raw bytes agree at offsets 2 to 87 have the same checksum, whatever they hold
  at offsets 0, 1, 88 and 89.
\<close>

theorem razer_calculate_crc_bytes_2_to_87:
  "fst (razer_calculate_crc r) = foldl (XOR) 0 (take 86 (drop 2 (razer_report_bytes r)))
   \<and> snd (razer_calculate_crc r) = r
   \<and> (take 86 (drop 2 (razer_report_bytes r')) = take 86 (drop 2 (razer_report_bytes r))
        \<longrightarrow> fst (razer_calculate_crc r') = fst (razer_calculate_crc r))"
proof -
  have value_of: "fst (razer_calculate_crc x)
                    = foldl (XOR) 0 (take 86 (drop 2 (razer_report_bytes x)))" for x
  proof -
    have "fst (razer_calculate_crc x) = crc_loop (razer_report_bytes x) 2 0"
      by (simp add: razer_calculate_crc_def)
    then show ?thesis
      by (simp only: crc_loop_bytes)
  qed
  have unchanged: "snd (razer_calculate_crc r) = r"
    by (simp add: razer_calculate_crc_def)
  have "fst (razer_calculate_crc r') = fst (razer_calculate_crc r)"
    if "take 86 (drop 2 (razer_report_bytes r')) = take 86 (drop 2 (razer_report_bytes r))"
    using that by (simp only: value_of)
  with value_of [of r] unchanged show ?thesis
    by blast
qed

theorem razer_calculate_crc_bytes_2_to_87_witness:
  "take 86 (drop 2 (razer_report_bytes
       (example_request\<lparr>status := 0x02, transaction_id := 0x1F, padding := [0xAA, 0xBB]\<rparr>)))
     = take 86 (drop 2 (razer_report_bytes example_request))
   \<and> take 2 (razer_report_bytes
       (example_request\<lparr>status := 0x02, transaction_id := 0x1F, padding := [0xAA, 0xBB]\<rparr>))
     = [0x02, 0x1F]
   \<and> drop 88 (razer_report_bytes
       (example_request\<lparr>status := 0x02, transaction_id := 0x1F, padding := [0xAA, 0xBB]\<rparr>))
     = [0xAA, 0xBB]
   \<and> take 2 (razer_report_bytes example_request) = [0x00, 0x00]
   \<and> drop 88 (razer_report_bytes example_request) = [0x00, 0x00]
   \<and> fst (razer_calculate_crc
       (example_request\<lparr>status := 0x02, transaction_id := 0x1F, padding := [0xAA, 0xBB]\<rparr>))
     = fst (razer_calculate_crc example_request)
   \<and> snd (razer_calculate_crc example_request) = example_request
   \<and> fst (razer_calculate_crc example_request) = 0x0F"
proof -
  let ?r' = "example_request\<lparr>status := 0x02, transaction_id := 0x1F,
               padding := [0xAA, 0xBB]\<rparr>"
  have h: "take 86 (drop 2 (razer_report_bytes ?r'))
             = take 86 (drop 2 (razer_report_bytes example_request))"
    by code_simp
  have t: "take 2 (razer_report_bytes ?r') = [0x02, 0x1F]"
    by code_simp
  have d: "drop 88 (razer_report_bytes ?r') = [0xAA, 0xBB]"
    by code_simp
  have t0: "take 2 (razer_report_bytes example_request) = [0x00, 0x00]"
    by code_simp
  have d0: "drop 88 (razer_report_bytes example_request) = [0x00, 0x00]"
    by code_simp
  have v: "fst (razer_calculate_crc example_request) = 0x0F"
    by code_simp
  from razer_calculate_crc_bytes_2_to_87 [of example_request ?r']
  show ?thesis
    using h t d t0 d0 v by blast
qed

section \<open>The lighting frame\<close>

text \<open>
  Claim C5. A call of \<^verbatim>\<open>razer_send_argb_msg\<close> whose \<^verbatim>\<open>size * 3\<close> exceeds the length of
  the frame's \<^verbatim>\<open>color_data\<close> array returns \<^verbatim>\<open>-EINVAL\<close> and issues no control transfer: its
  only kernel call is the \<^verbatim>\<open>printk\<close> of the error.
\<close>

theorem argb_oversized_rejected:
  assumes "color_data_len report < unat size' * 3"
  shows "a_ret (razer_send_argb_msg env report channel size' data) = - EINVAL
       \<and> transfers (a_events (razer_send_argb_msg env report channel size' data)) = []
       \<and> a_events (razer_send_argb_msg env report channel size' data)
           = [Printk KERN_ERR ''razer driver: size too big'' []]"
  using assms by (simp add: argb_rejects)

theorem argb_oversized_rejected_witness:
  "color_data_len (stack_frame 12) < unat (5 :: u8) * 3
   \<and> a_ret (razer_send_argb_msg \<lparr>kmemdup_ok = True, ctrl_len = 17\<rparr> (stack_frame 12) 0 5
        example_colors) = - 22
   \<and> transfers (a_events (razer_send_argb_msg \<lparr>kmemdup_ok = True, ctrl_len = 17\<rparr>
        (stack_frame 12) 0 5 example_colors)) = []"
proof -
  have h: "color_data_len (stack_frame 12) < unat (5 :: u8) * 3"
    by (simp add: color_data_len_def stack_frame_def)
  from argb_oversized_rejected [OF h, of "\<lparr>kmemdup_ok = True, ctrl_len = 17\<rparr>" 0
      example_colors]
  show ?thesis
    using h by (simp add: EINVAL_def)
qed

text \<open>
  Claim C8. In every call of \<^verbatim>\<open>razer_send_argb_msg\<close> the frame built has report id
  \<open>0x04\<close> when \<^verbatim>\<open>channel < 5\<close> and \<open>0x84\<close> otherwise, both channel fields equal to
  \<^verbatim>\<open>channel\<close>, the pad byte 0 and \<^verbatim>\<open>last_idx\<close> equal to \<^verbatim>\<open>size - 1\<close> (as a byte; one
  less than the count when the count is not 0). When the payload fits, the one control
  transfer of the call has index \<open>0x01\<close> and, if \<^verbatim>\<open>kmemdup\<close> returned a buffer, carries
  the bytes of that frame; when it does not fit there is no transfer.
\<close>

theorem argb_frame_fields:
  fixes env report channel size' data
  defines "r \<equiv> razer_send_argb_msg env report channel size' data"
  shows "report_id (a_report r) = (if channel < 5 then 0x04 else 0x84)
       \<and> channel_1 (a_report r) = channel
       \<and> channel_2 (a_report r) = channel
       \<and> pad (a_report r) = 0
       \<and> last_idx (a_report r) = size' - 1
       \<and> (size' \<noteq> 0 \<longrightarrow> unat (last_idx (a_report r)) = unat size' - 1)
       \<and> map ctl_index (transfers (a_events r))
           = (if color_data_len report < unat size' * 3 then [] else [0x01])
       \<and> map ctl_data (transfers (a_events r))
           = (if color_data_len report < unat size' * 3 then []
              else [if kmemdup_ok env then Some (razer_argb_report_bytes (a_report r))
                    else None])"
proof (cases "color_data_len report < unat size' * 3")
  case True
  then show ?thesis
    by (simp add: r_def argb_rejects unat_minus_one)
next
  case False
  then show ?thesis
    by (simp add: r_def argb_passes Let_def unat_minus_one)
qed

theorem argb_frame_fields_witness:
  "report_id (a_report (razer_send_argb_msg \<lparr>kmemdup_ok = True, ctrl_len = 35\<rparr>
       (stack_frame 30) 4 10 example_colors)) = 0x04
   \<and> report_id (a_report (razer_send_argb_msg \<lparr>kmemdup_ok = True, ctrl_len = 35\<rparr>
       (stack_frame 30) 5 10 example_colors)) = 0x84
   \<and> last_idx (a_report (razer_send_argb_msg \<lparr>kmemdup_ok = True, ctrl_len = 35\<rparr>
       (stack_frame 30) 4 10 example_colors)) = 9
   \<and> map ctl_index (transfers (a_events (razer_send_argb_msg
       \<lparr>kmemdup_ok = True, ctrl_len = 35\<rparr> (stack_frame 30) 4 10 example_colors))) = [1]"
  using argb_frame_fields [of "\<lparr>kmemdup_ok = True, ctrl_len = 35\<rparr>" "stack_frame 30" 4 10
      example_colors]
    argb_frame_fields [of "\<lparr>kmemdup_ok = True, ctrl_len = 35\<rparr>" "stack_frame 30" 5 10
      example_colors]
  by (simp add: color_data_len_def stack_frame_def)

text \<open>
  Claim C10. A call of \<^verbatim>\<open>razer_send_argb_msg\<close> with \<^verbatim>\<open>size\<close> 0 is not rejected: the
  capacity check passes whatever the length of \<^verbatim>\<open>color_data\<close>, \<^verbatim>\<open>last_idx\<close> is 255, no
  byte of \<^verbatim>\<open>color_data\<close> is written, and the control transfer is issued, with the bytes
  of that frame when \<^verbatim>\<open>kmemdup\<close> returned a buffer.
\<close>

theorem argb_count_zero_is_sent:
  fixes env report channel data
  defines "r \<equiv> razer_send_argb_msg env report channel 0 data"
  shows "\<not> color_data_len report < unat (0 :: u8) * 3
       \<and> last_idx (a_report r) = 255
       \<and> color_data (a_report r) = color_data report
       \<and> transfers (a_events r) =
           [\<lparr>ctl_pipe = Snd_ctrl_pipe 0, ctl_request = HID_REQ_SET_REPORT,
             ctl_requesttype = REQTYPE_CLASS_INTERFACE_OUT, ctl_value = 0x300,
             ctl_index = 0x01,
             ctl_data = (if kmemdup_ok env then Some (razer_argb_report_bytes (a_report r))
                         else None),
             ctl_size = sizeof_argb (a_report r), ctl_timeout = USB_CTRL_SET_TIMEOUT\<rparr>]
       \<and> a_ret r = (if ctrl_len env < 0 then ctrl_len env
                     else if ctrl_len env \<noteq> 0 then - EIO else 0)"
proof -
  have "\<not> color_data_len report < unat (0 :: u8) * 3"
    by simp
  from argb_passes [OF this] show ?thesis
    by (simp add: r_def Let_def memcpy_def)
qed

theorem argb_count_zero_is_sent_witness:
  "last_idx (a_report (razer_send_argb_msg \<lparr>kmemdup_ok = True, ctrl_len = 17\<rparr>
       (stack_frame 12) 4 0 example_colors)) = 255
   \<and> map ctl_data (transfers (a_events (razer_send_argb_msg
       \<lparr>kmemdup_ok = True, ctrl_len = 17\<rparr> (stack_frame 12) 4 0 example_colors)))
       = [Some ([0x04, 0x04, 0x04, 0x00, 0xFF] @ replicate 12 0x5A)]"
  using argb_count_zero_is_sent [of "stack_frame 12" "\<lparr>kmemdup_ok = True, ctrl_len = 17\<rparr>"
      4 example_colors]
  by (simp add: stack_frame_def razer_argb_report_bytes_def argb_passes
        color_data_len_def Let_def memcpy_def)

text \<open>
  Claim C2 says that a call whose payload fits returns \<^verbatim>\<open>-EIO\<close> exactly when the
  transferred length differs from the size of the frame, and 0 when the whole frame
  was moved. The function does not do that: its last line compares the length with the
  LED count \<^verbatim>\<open>size\<close>, not with \<^verbatim>\<open>sizeof(report)\<close> as the line before it does. A payload
  that fits makes the frame longer than \<^verbatim>\<open>size\<close>, so every transfer of the whole frame
  is answered with \<^verbatim>\<open>-EIO\<close>.
\<close>

theorem argb_full_transfer_returns_EIO:
  assumes "\<not> color_data_len report < unat size' * 3"
    and "ctrl_len env = int (5 + color_data_len report)"
  shows "sizeof_argb (a_report (razer_send_argb_msg env report channel size' data))
           = 5 + color_data_len report
       \<and> a_ret (razer_send_argb_msg env report channel size' data) = - EIO"
proof -
  have "unat size' * 3 \<le> length (color_data report)"
    using assms(1) by (simp add: color_data_len_def)
  then have "sizeof_argb (a_report (razer_send_argb_msg env report channel size' data))
           = 5 + color_data_len report"
    by (simp add: argb_passes [OF assms(1)] Let_def sizeof_argb_frame color_data_len_def)
  then show ?thesis
    using argb_full_transfer_is_EIO [OF assms] by simp
qed

theorem argb_full_transfer_returns_EIO_witness:
  "\<not> color_data_len (stack_frame 12) < unat (1 :: u8) * 3
   \<and> ctrl_len \<lparr>kmemdup_ok = True, ctrl_len = 17\<rparr> = int (5 + color_data_len (stack_frame 12))
   \<and> sizeof_argb (a_report (razer_send_argb_msg \<lparr>kmemdup_ok = True, ctrl_len = 17\<rparr>
        (stack_frame 12) 0 1 example_colors)) = 17
   \<and> a_ret (razer_send_argb_msg \<lparr>kmemdup_ok = True, ctrl_len = 17\<rparr>
        (stack_frame 12) 0 1 example_colors) = - 5"
proof -
  have h1: "\<not> color_data_len (stack_frame 12) < unat (1 :: u8) * 3"
    by (simp add: color_data_len_def stack_frame_def)
  have h2: "ctrl_len \<lparr>kmemdup_ok = True, ctrl_len = 17\<rparr>
              = int (5 + color_data_len (stack_frame 12))"
    by (simp add: color_data_len_def stack_frame_def)
  from argb_full_transfer_returns_EIO [OF h1 h2, of 0 example_colors]
  show ?thesis
    using h1 h2 by (simp add: EIO_def color_data_len_def stack_frame_def)
qed

end
